theory Spec2Isabelle
  imports Main "HOL-Library.Word" "HOL-Library.AList"
begin

section \<open>JavaScript strings\<close>

text \<open>
  A JavaScript string is a sequence of UTF-16 code units.  Literals of the program are
  written \<open>js ''...''\<close>; every literal used below is ASCII except the fallback glyph,
  which is the single code unit U+2728.
\<close>

type_synonym jsstring = "16 word list"

definition js :: "string \<Rightarrow> jsstring" where
  "js s = map of_char s"

definition dq :: jsstring where
  "dq = [0x22]"

definition nl :: jsstring where
  "nl = [0x0A]"

text \<open>
  \<^verbatim>\<open>String.prototype.trim\<close> removes WhiteSpace and LineTerminator code points from both
  ends: TAB, VT, FF, SP, NBSP, ZWNBSP, the Unicode space separators, and LF, CR, LS, PS.
\<close>

definition isWhiteSpace :: "16 word \<Rightarrow> bool" where
  "isWhiteSpace c \<longleftrightarrow>
     c \<in> set [0x0009, 0x000B, 0x000C, 0x0020, 0x00A0, 0xFEFF,
               0x1680, 0x2000, 0x2001, 0x2002, 0x2003, 0x2004, 0x2005, 0x2006,
               0x2007, 0x2008, 0x2009, 0x200A, 0x202F, 0x205F, 0x3000,
               0x000A, 0x000D, 0x2028, 0x2029]"

definition trim :: "jsstring \<Rightarrow> jsstring" where
  "trim s = rev (dropWhile isWhiteSpace (rev (dropWhile isWhiteSpace s)))"

text \<open>\<^verbatim>\<open>String(b)\<close> for a boolean.\<close>

definition String_of_bool :: "bool \<Rightarrow> jsstring" where
  "String_of_bool b = (if b then js ''true'' else js ''false'')"

text \<open>\<^verbatim>\<open>Array.prototype.join\<close> on an array of strings.\<close>

fun join :: "jsstring \<Rightarrow> jsstring list \<Rightarrow> jsstring" where
  "join sep [] = []"
| "join sep [x] = x"
| "join sep (x # y # ys) = x @ sep @ join sep (y # ys)"

section \<open>The DOM surfaces the script touches\<close>

text \<open>
  An element carries its class list and its inline style; elements that hold text carry
  their tag and text content as well; a button can be disabled and has the
  \<^verbatim>\<open>aria-expanded\<close> attribute.  A \<^verbatim>\<open>DOMTokenList\<close> is an ordered list of tokens.
\<close>

record element =
  classList :: "jsstring list"
  style :: "(jsstring \<times> jsstring) list"

record text_element = element +
  tagName :: jsstring
  textContent :: jsstring

record button = text_element +
  disabled :: bool
  aria_expanded :: "jsstring option"

datatype node =
    TextNode jsstring
  | ImgNode (src: jsstring) (alt: jsstring)
  | ElemNode text_element

definition createElement :: "jsstring \<Rightarrow> text_element" where
  "createElement t = \<lparr>classList = [], style = [], tagName = t, textContent = []\<rparr>"

definition classList_add :: "jsstring \<Rightarrow> jsstring list \<Rightarrow> jsstring list" where
  "classList_add c cs = (if c \<in> set cs then cs else cs @ [c])"

definition classList_remove :: "jsstring \<Rightarrow> jsstring list \<Rightarrow> jsstring list" where
  "classList_remove c cs = removeAll c cs"

text \<open>\<^verbatim>\<open>classList.toggle(c)\<close> returns whether the token is present afterwards.\<close>

definition classList_toggle :: "jsstring \<Rightarrow> jsstring list \<Rightarrow> jsstring list \<times> bool" where
  "classList_toggle c cs =
     (if c \<in> set cs then (removeAll c cs, False) else (cs @ [c], True))"

definition setStyle ::
  "jsstring \<Rightarrow> jsstring \<Rightarrow> (jsstring \<times> jsstring) list \<Rightarrow> (jsstring \<times> jsstring) list" where
  "setStyle k v st = AList.update k v st"

section \<open>The generative service\<close>

text \<open>
  The service is outside the program.  A call either throws or returns; what it does is
  a parameter of every handler below.
\<close>

datatype error = ServiceError jsstring | TypeError

text \<open>
  Modelled from the spec: the stream a streaming call returns, whose type is declared by
  the service's library and not by the sources.  It is an incremental sequence of text
  fragments (the \<^verbatim>\<open>chunk.text\<close> the loops read) terminating in stream completion, and
  it may fail at any point: a finite stream with an explicit end.
\<close>

datatype stream = Done | Chunk jsstring stream | Fail error

datatype request =
    GenerateContentStream (req_model: jsstring) (req_prompt: jsstring)
  | GenerateContent (req_model: jsstring) (req_prompt: jsstring) (req_aspectRatio: jsstring)
  | ChatsCreate (req_model: jsstring) (req_systemInstruction: jsstring)
  | SendMessageStream (req_session: nat) (req_message: jsstring)

text \<open>
  What leaves the page: the requests sent to the service, in order, and the lines written
  with \<^verbatim>\<open>console.error\<close>.
\<close>

record env =
  calls :: "request list"
  console :: "(jsstring \<times> error) list"

definition send :: "request \<Rightarrow> env \<Rightarrow> env" where
  "send r w = w\<lparr>calls := calls w @ [r]\<rparr>"

definition console_error :: "jsstring \<Rightarrow> error \<Rightarrow> env \<Rightarrow> env" where
  "console_error l e w = w\<lparr>console := console w @ [(l, e)]\<rparr>"

text \<open>
  The loop \<^verbatim>\<open>for await (const chunk of stream) { t.textContent += chunk.text; }\<close>
  on the text \<open>t\<close> of the target: the text reached, and the error if the stream threw.
\<close>

fun feed :: "jsstring \<Rightarrow> stream \<Rightarrow> jsstring \<times> error option" where
  "feed t Done = (t, None)"
| "feed t (Chunk c s) = feed (t @ c) s"
| "feed t (Fail e) = (t, Some e)"

fun fragments :: "stream \<Rightarrow> jsstring list" where
  "fragments Done = []"
| "fragments (Chunk c s) = c # fragments s"
| "fragments (Fail e) = []"

fun completes :: "stream \<Rightarrow> bool" where
  "completes Done = True"
| "completes (Chunk c s) = completes s"
| "completes (Fail e) = False"

section \<open>Section expansion: \<^verbatim>\<open>handleExploreClick\<close>\<close>

text \<open>
  A section as the handler sees it: its class list, \<^verbatim>\<open>dataset.content\<close>, its
  \<^verbatim>\<open>h2\<close> and \<^verbatim>\<open>p\<close> descendants outside the details container, in document order
  (either list may be empty), and the children of its \<^verbatim>\<open>.details-container\<close>, \<open>None\<close>
  when it has no such descendant.
\<close>

record plan_section =
  sec_classList :: "jsstring list"
  dataset_content :: "jsstring option"
  h2_elems :: "text_element list"
  p_elems :: "text_element list"
  detailsContainer :: "node list option"

text \<open>\<^verbatim>\<open>querySelector\<close>: the first match in document order, or \<^verbatim>\<open>null\<close>.\<close>

definition querySelector :: "'a list \<Rightarrow> 'a option" where
  "querySelector matches = (case matches of [] \<Rightarrow> None | x # _ \<Rightarrow> Some x)"

definition deep_dive_prompt :: "jsstring \<Rightarrow> jsstring \<Rightarrow> jsstring" where
  "deep_dive_prompt title description =
     js ''Act as a futuristic historian and philosopher. Expand on the concept of ''
       @ dq @ title @ dq @ js ''. '' @ nl
     @ js ''        Original summary: '' @ description @ js ''. '' @ nl
     @ js ''        Provide a deeper visionary perspective in 2 concise paragraphs. '' @ nl
     @ js ''        Focus on the technological breakthroughs and the positive evolution of the human spirit in this bright future.''"

definition text_model :: jsstring where
  "text_model = js ''gemini-3-flash-preview''"

text \<open>The three contents the handler gives the details container.\<close>

definition loading_notice :: "node list" where
  "loading_notice =
     [ElemNode \<lparr>classList = [js ''message'', js ''assistant''], style = [],
                tagName = js ''div'', textContent = js ''Initializing deep dive...''\<rparr>]"

definition feeder_error_text :: jsstring where
  "feeder_error_text = js ''Error accessing the data stream. Connection disrupted.''"

definition error_notice :: "node list" where
  "error_notice =
     [ElemNode \<lparr>classList = [], style = [(js ''color'', js ''#ef4444'')],
                tagName = js ''p'', textContent = feeder_error_text\<rparr>]"

text \<open>
  The body of the \<^verbatim>\<open>try\<close> block, in two parts: the state it leaves, and the error it
  threw if any.  First the part from the request on; \<open>r\<close> is what
  \<^verbatim>\<open>await ai.models.generateContentStream(...)\<close> does.
\<close>

definition explore_stream ::
  "error + stream \<Rightarrow> jsstring \<Rightarrow> env \<Rightarrow> plan_section \<Rightarrow> error option \<times> env \<times> plan_section" where
  "explore_stream r prompt w sec =
     (let w1 = send (GenerateContentStream text_model prompt) w
      in case r of
           Inl e \<Rightarrow> (Some e, w1, sec)
         | Inr responseStream \<Rightarrow>
             (let contentP = (createElement (js ''p''))\<lparr>classList := [js ''streaming'']\<rparr>;
                  (t, thrown) = feed (textContent contentP) responseStream;
                  contentP1 = contentP\<lparr>textContent := t\<rparr>
              in case thrown of
                   Some e \<Rightarrow> (Some e, w1, sec\<lparr>detailsContainer := Some [ElemNode contentP1]\<rparr>)
                 | None \<Rightarrow>
                     (let contentP2 =
                            contentP1\<lparr>classList :=
                              classList_remove (js ''streaming'') (classList contentP1)\<rparr>
                      in (None, w1, sec\<lparr>detailsContainer := Some [ElemNode contentP2],
                                        dataset_content := Some (js ''loaded'')\<rparr>))))"

text \<open>
  The whole block.  It first reads \<^verbatim>\<open>section.querySelector('h2').textContent\<close> and
  \<^verbatim>\<open>section.querySelector('p').textContent\<close>; the casts \<^verbatim>\<open>as HTMLElement\<close> check nothing,
  so reading \<^verbatim>\<open>textContent\<close> of \<^verbatim>\<open>null\<close> throws a \<^verbatim>\<open>TypeError\<close> before any request is
  sent.  When the lookups run, the details container holds the loading notice only.  On a
  string, \<^verbatim>\<open>x || ''\<close> is \<open>x\<close>.
\<close>

definition explore_try ::
  "error + stream \<Rightarrow> env \<Rightarrow> plan_section \<Rightarrow> error option \<times> env \<times> plan_section" where
  "explore_try r w sec =
     (case querySelector (h2_elems sec) of
        None \<Rightarrow> (Some TypeError, w, sec)
      | Some h2 \<Rightarrow>
         (let title = textContent h2
          in case querySelector (p_elems sec) of
               None \<Rightarrow> (Some TypeError, w, sec)
             | Some p \<Rightarrow>
                (let description = textContent p;
                     prompt = deep_dive_prompt title description
                 in explore_stream r prompt w sec)))"

definition handleExploreClick ::
  "error + stream \<Rightarrow> env \<times> button \<times> plan_section option \<Rightarrow> env \<times> button \<times> plan_section option" where
  "handleExploreClick r st =
     (case st of (w, btn, closest) \<Rightarrow>
        (case closest of
           None \<Rightarrow> (w, btn, None)
         | Some sec \<Rightarrow>
            (case detailsContainer sec of
               None \<Rightarrow> (w, btn, Some sec)
             | Some dc \<Rightarrow>
                (let (cl, isExpanded) = classList_toggle (js ''expanded'') (sec_classList sec);
                     sec1 = sec\<lparr>sec_classList := cl\<rparr>;
                     btn1 = btn\<lparr>aria_expanded := Some (String_of_bool isExpanded)\<rparr>
                 in if isExpanded then
                      (let btn2 = btn1\<lparr>textContent := js ''Seal Frontier''\<rparr>;
                           isLoaded = (dataset_content sec1 = Some (js ''loaded''))
                       in if \<not> isLoaded then
                            (let sec2 = sec1\<lparr>detailsContainer := Some loading_notice\<rparr>;
                                 btn3 = btn2\<lparr>disabled := True\<rparr>;
                                 (thrown, w1, sec3) = explore_try r w sec2;
                                 (w2, sec4) =
                                   (case thrown of
                                      None \<Rightarrow> (w1, sec3)
                                    | Some e \<Rightarrow>
                                        (console_error (js ''Error:'') e w1,
                                         sec3\<lparr>detailsContainer := Some error_notice\<rparr>))
                             in (w2, btn3\<lparr>disabled := False\<rparr>, Some sec4))
                          else (w, btn2, Some sec1))
                    else (w, btn1\<lparr>textContent := js ''Explore Frontier''\<rparr>, Some sec1)))))"

text \<open>Whether the section is shown expanded, and whether its content is cached.\<close>

definition is_expanded :: "plan_section \<Rightarrow> bool" where
  "is_expanded sec \<longleftrightarrow> js ''expanded'' \<in> set (sec_classList sec)"

definition is_loaded :: "plan_section \<Rightarrow> bool" where
  "is_loaded sec \<longleftrightarrow> dataset_content sec = Some (js ''loaded'')"

text \<open>A run of clicks on one button, each with what the service would answer.\<close>

fun explore_clicks ::
  "(error + stream) list \<Rightarrow> env \<times> button \<times> plan_section option \<Rightarrow> env \<times> button \<times> plan_section option" where
  "explore_clicks [] st = st"
| "explore_clicks (r # rs) st = explore_clicks rs (handleExploreClick r st)"

section \<open>Icons: \<^verbatim>\<open>generateIcons\<close>\<close>

text \<open>
  The response of the image request as the code reads it:
  \<^verbatim>\<open>response.candidates[0].content.parts\<close>, each part with an optional
  \<^verbatim>\<open>inlineData\<close>.  A field that is \<^verbatim>\<open>undefined\<close> is \<open>None\<close>; reading a property of
  \<^verbatim>\<open>undefined\<close>, or iterating it, throws a \<^verbatim>\<open>TypeError\<close>.
\<close>

record blob =
  blob_data :: "jsstring option"

record part =
  part_text :: "jsstring option"
  inlineData :: "blob option"

record content =
  parts :: "part list option"

record candidate =
  cand_content :: "content option"

record response =
  candidates :: "candidate list option"

text \<open>A value inside a template literal: \<^verbatim>\<open>undefined\<close> prints as its name.\<close>

definition template_value :: "jsstring option \<Rightarrow> jsstring" where
  "template_value v = (case v of None \<Rightarrow> js ''undefined'' | Some s \<Rightarrow> s)"

record placeholder =
  ph_style :: "(jsstring \<times> jsstring) list"
  dataset_phase :: "jsstring option"
  childNodes :: "node list"

definition sparkles :: jsstring where
  "sparkles = [0x2728]"

definition image_model :: jsstring where
  "image_model = js ''gemini-2.5-flash-image''"

definition icon_prompt :: "jsstring \<Rightarrow> jsstring" where
  "icon_prompt phaseName =
     js ''A highly detailed, clean, minimalist futuristic icon for ''
       @ dq @ phaseName @ dq @ js ''. '' @ nl
     @ js ''      Style: vibrant colors, soft gradients on a pure white background, modern glassmorphism aesthetic, '' @ nl
     @ js ''      high-tech symbolic representation. High-key lighting, professional 3D render style with soft shadows.''"

text \<open>\<^verbatim>\<open>placeholder.dataset.phase || 'Future technology'\<close>\<close>

definition phaseName_of :: "placeholder \<Rightarrow> jsstring" where
  "phaseName_of ph =
     (case dataset_phase ph of
        None \<Rightarrow> js ''Future technology''
      | Some s \<Rightarrow> if s = [] then js ''Future technology'' else s)"

text \<open>
  The inner loop \<^verbatim>\<open>for (const part of ...parts)\<close>: the first part with inline data
  becomes the image and ends the loop; a list without one leaves the placeholder as it is.
\<close>

fun place_image :: "jsstring \<Rightarrow> part list \<Rightarrow> placeholder \<Rightarrow> placeholder" where
  "place_image phaseName [] ph = ph"
| "place_image phaseName (pt # rest) ph =
     (case inlineData pt of
        Some b \<Rightarrow>
          ph\<lparr>childNodes :=
               [ImgNode (js ''data:image/png;base64,'' @ template_value (blob_data b)) phaseName]\<rparr>
      | None \<Rightarrow> place_image phaseName rest ph)"

text \<open>The parts the code reaches in a response, or the \<^verbatim>\<open>TypeError\<close> on the way.\<close>

definition response_parts :: "response \<Rightarrow> error + part list" where
  "response_parts resp =
     (case candidates resp of
        None \<Rightarrow> Inl TypeError
      | Some cs \<Rightarrow>
         (case cs of
            [] \<Rightarrow> Inl TypeError
          | c # _ \<Rightarrow>
             (case cand_content c of
                None \<Rightarrow> Inl TypeError
              | Some ct \<Rightarrow>
                 (case parts ct of
                    None \<Rightarrow> Inl TypeError
                  | Some ps \<Rightarrow> Inr ps))))"

text \<open>
  One iteration of the outer loop; \<open>r\<close> is what \<^verbatim>\<open>await ai.models.generateContent(...)\<close>
  does for this placeholder.
\<close>

definition icon_try ::
  "error + response \<Rightarrow> env \<Rightarrow> placeholder \<Rightarrow> error option \<times> env \<times> placeholder" where
  "icon_try r w ph =
     (let phaseName = phaseName_of ph;
          w1 = send (GenerateContent image_model (icon_prompt phaseName) (js ''1:1'')) w
      in case r of
           Inl e \<Rightarrow> (Some e, w1, ph)
         | Inr resp \<Rightarrow>
            (case response_parts resp of
               Inl e \<Rightarrow> (Some e, w1, ph)
             | Inr ps \<Rightarrow> (None, w1, place_image phaseName ps ph)))"

definition generateIcon :: "error + response \<Rightarrow> env \<Rightarrow> placeholder \<Rightarrow> env \<times> placeholder" where
  "generateIcon r w ph =
     (case icon_try r w ph of
        (None, w1, ph1) \<Rightarrow> (w1, ph1)
      | (Some e, w1, ph1) \<Rightarrow>
          (console_error (js ''Icon generation failed:'') e w1,
           ph1\<lparr>childNodes := [TextNode sparkles],
               ph_style := setStyle (js ''color'') (js ''#3b82f6'')
                             (setStyle (js ''fontSize'') (js ''24px'') (ph_style ph1))\<rparr>))"

text \<open>The placeholders in document order, each with the answer to its own request.\<close>

fun generateIcons ::
  "env \<Rightarrow> ((error + response) \<times> placeholder) list \<Rightarrow> env \<times> placeholder list" where
  "generateIcons w [] = (w, [])"
| "generateIcons w ((r, ph) # rest) =
     (let (w1, ph1) = generateIcon r w ph;
          (w2, phs) = generateIcons w1 rest
      in (w2, ph1 # phs))"

text \<open>The three states of a placeholder.\<close>

definition shows_image :: "placeholder \<Rightarrow> bool" where
  "shows_image ph \<longleftrightarrow> (case childNodes ph of [ImgNode s a] \<Rightarrow> True | _ \<Rightarrow> False)"

definition shows_fallback :: "placeholder \<Rightarrow> bool" where
  "shows_fallback ph \<longleftrightarrow>
     childNodes ph = [TextNode sparkles]
     \<and> map_of (ph_style ph) (js ''fontSize'') = Some (js ''24px'')
     \<and> map_of (ph_style ph) (js ''color'') = Some (js ''#3b82f6'')"

definition has_inline_image :: "response \<Rightarrow> bool" where
  "has_inline_image resp \<longleftrightarrow>
     (case response_parts resp of
        Inl e \<Rightarrow> False
      | Inr ps \<Rightarrow> list_ex (\<lambda>pt. inlineData pt \<noteq> None) ps)"

section \<open>The vision statement: \<^verbatim>\<open>generateGrandVision\<close>\<close>

record vision_dom =
  visionText :: "text_element option"
  visionBtn :: "button option"

definition vision_prompt :: "jsstring \<Rightarrow> jsstring" where
  "vision_prompt sections =
     js ''Synthesize these 10 phases of a grand human plan into a single, extremely powerful and uplifting visionary statement of roughly 3-4 sentences. '' @ nl
     @ js ''    Phases: '' @ sections @ js ''. '' @ nl
     @ js ''    Make it feel optimistic, clear, and inspiring. Avoid dark or dystopian themes.''"

definition vision_fallback :: jsstring where
  "vision_fallback =
     js ''The vision is momentarily obscured. Please reconnect to the collective consciousness.''"

text \<open>
  \<open>headings\<close> are the texts of the \<^verbatim>\<open>.plan-section h2\<close> elements in document order;
  \<open>r\<close> is what \<^verbatim>\<open>await ai.models.generateContentStream(...)\<close> does.
\<close>

definition vision_try ::
  "error + stream \<Rightarrow> jsstring \<Rightarrow> env \<Rightarrow> text_element \<Rightarrow> error option \<times> env \<times> text_element" where
  "vision_try r sections w vt =
     (let w1 = send (GenerateContentStream text_model (vision_prompt sections)) w
      in case r of
           Inl e \<Rightarrow> (Some e, w1, vt)
         | Inr s \<Rightarrow>
            (let (t, thrown) = feed (textContent vt) s
             in (thrown, w1, vt\<lparr>textContent := t\<rparr>)))"

definition generateGrandVision ::
  "error + stream \<Rightarrow> jsstring list \<Rightarrow> env \<times> vision_dom \<Rightarrow> env \<times> vision_dom" where
  "generateGrandVision r headings st =
     (case st of (w, v) \<Rightarrow>
        (case (visionText v, visionBtn v) of
           (Some vt, Some btn) \<Rightarrow>
             (let btn1 = btn\<lparr>disabled := True\<rparr>;
                  vt1 = vt\<lparr>classList := classList_remove (js ''placeholder-text'') (classList vt)\<rparr>;
                  vt2 = vt1\<lparr>textContent := []\<rparr>;
                  vt3 = vt2\<lparr>classList := classList_add (js ''streaming'') (classList vt2)\<rparr>;
                  sections = join (js '', '') headings;
                  (thrown, w1, vt4) = vision_try r sections w vt3;
                  vt5 = (case thrown of
                           None \<Rightarrow> vt4
                         | Some e \<Rightarrow> vt4\<lparr>textContent := vision_fallback\<rparr>);
                  vt6 = vt5\<lparr>classList := classList_remove (js ''streaming'') (classList vt5)\<rparr>;
                  btn2 = btn1\<lparr>style := setStyle (js ''display'') (js ''none'') (style btn1)\<rparr>
              in (w1, v\<lparr>visionText := Some vt6, visionBtn := Some btn2\<rparr>))
         | _ \<Rightarrow> (w, v)))"

text \<open>
  A user can click a button only when it is rendered and enabled: a disabled button
  dispatches no click event, and an element with \<^verbatim>\<open>display: none\<close> has no box to click.
\<close>

definition hidden :: "button \<Rightarrow> bool" where
  "hidden b \<longleftrightarrow> map_of (style b) (js ''display'') = Some (js ''none'')"

definition clickable :: "button \<Rightarrow> bool" where
  "clickable b \<longleftrightarrow> \<not> disabled b \<and> \<not> hidden b"

section \<open>The chat widget: \<^verbatim>\<open>initChat\<close>\<close>

text \<open>
  The widget's state: the input's value, the children of \<^verbatim>\<open>#chat-messages\<close>, the
  module variable \<^verbatim>\<open>chat\<close> (a session object, named by its identity, or \<^verbatim>\<open>null\<close>),
  the widget's class list and the label of the collapse toggle.  Scrolling
  (\<^verbatim>\<open>scrollTop\<close>, \<^verbatim>\<open>scrollHeight\<close>) depends on layout and is left out.
\<close>

type_synonym session = nat

record chat_widget =
  input_value :: jsstring
  messages :: "text_element list"
  chat :: "session option"
  widget_classList :: "jsstring list"
  toggle_textContent :: jsstring

definition chat_instruction :: jsstring where
  "chat_instruction =
     js ''You are the 'Oracle of the Future', an uplifting AI guide for 'The Grand Plan'. Your outlook is bright, clear, and grounded in human flourishing. You are wise, encouraging, and helpful. Keep answers concise but deeply inspiring.''"

definition chat_apology :: jsstring where
  "chat_apology = js ''Apologies, the data link is unstable. Let us try once more.''"

text \<open>The click listener of \<^verbatim>\<open>#chat-toggle\<close>; the labels are the arrows U+2191 and U+2193.\<close>

definition chat_toggle_click :: "chat_widget \<Rightarrow> chat_widget" where
  "chat_toggle_click c =
     (let (cl, present) = classList_toggle (js ''collapsed'') (widget_classList c)
      in c\<lparr>widget_classList := cl,
           toggle_textContent := (if js ''collapsed'' \<in> set cl then [0x2191] else [0x2193])\<rparr>)"

text \<open>
  What the service does during one submission: \<open>create_result\<close> is the outcome of
  \<^verbatim>\<open>ai.chats.create(...)\<close> (consulted only when the call is made), \<open>send_result\<close> that of
  \<^verbatim>\<open>await chat.sendMessageStream(...)\<close>.
\<close>

record submit_oracle =
  create_result :: "error + session"
  send_result :: "error + stream"

text \<open>
  The \<^verbatim>\<open>try\<close> block of the submit listener, in two parts.  \<open>i\<close> is the position of
  \<^verbatim>\<open>assistantDiv\<close> among the children of the container.  First the part from
  \<^verbatim>\<open>await chat.sendMessageStream({ message })\<close> on, with the session \<open>s\<close> in \<^verbatim>\<open>chat\<close>.
\<close>

definition submit_send ::
  "submit_oracle \<Rightarrow> jsstring \<Rightarrow> nat \<Rightarrow> session \<Rightarrow> env \<Rightarrow> chat_widget
     \<Rightarrow> error option \<times> env \<times> chat_widget" where
  "submit_send orc message i s w c =
     (let w1 = send (SendMessageStream s message) w
      in case send_result orc of
           Inl e \<Rightarrow> (Some e, w1, c)
         | Inr responseStream \<Rightarrow>
            (let assistantDiv = (messages c ! i)\<lparr>textContent := []\<rparr>;
                 (t, thrown) = feed (textContent assistantDiv) responseStream
             in (thrown, w1, c\<lparr>messages := (messages c)[i := assistantDiv\<lparr>textContent := t\<rparr>]\<rparr>)))"

text \<open>The whole block: \<^verbatim>\<open>if (!chat) { chat = ai.chats.create(...); }\<close> comes first.\<close>

definition submit_try ::
  "submit_oracle \<Rightarrow> jsstring \<Rightarrow> nat \<Rightarrow> env \<Rightarrow> chat_widget \<Rightarrow> error option \<times> env \<times> chat_widget" where
  "submit_try orc message i w c =
     (case chat c of
        Some s \<Rightarrow> submit_send orc message i s w c
      | None \<Rightarrow>
         (let w1 = send (ChatsCreate text_model chat_instruction) w
          in case create_result orc of
               Inl e \<Rightarrow> (Some e, w1, c)
             | Inr s \<Rightarrow> submit_send orc message i s w1 (c\<lparr>chat := Some s\<rparr>)))"

definition chat_submit :: "submit_oracle \<Rightarrow> env \<times> chat_widget \<Rightarrow> env \<times> chat_widget" where
  "chat_submit orc st =
     (case st of (w, c) \<Rightarrow>
        (let message = trim (input_value c)
         in if message = [] then (w, c)
            else
              (let userDiv = (createElement (js ''div''))
                               \<lparr>classList := [js ''message'', js ''user''],
                                textContent := message\<rparr>;
                   c1 = c\<lparr>messages := messages c @ [userDiv], input_value := []\<rparr>;
                   assistantDiv = (createElement (js ''div''))
                               \<lparr>classList := [js ''message'', js ''assistant'', js ''streaming'']\<rparr>;
                   i = length (messages c1);
                   c2 = c1\<lparr>messages := messages c1 @ [assistantDiv]\<rparr>;
                   (thrown, w1, c3) = submit_try orc message i w c2;
                   c4 = (case thrown of
                           None \<Rightarrow> c3
                         | Some e \<Rightarrow>
                             c3\<lparr>messages :=
                                  (messages c3)[i := (messages c3 ! i)\<lparr>textContent := chat_apology\<rparr>]\<rparr>);
                   c5 = c4\<lparr>messages :=
                             (messages c4)[i := (messages c4 ! i)
                                \<lparr>classList := classList_remove (js ''streaming'')
                                                (classList (messages c4 ! i))\<rparr>]\<rparr>
               in (w1, c5))))"

section \<open>The page: \<^verbatim>\<open>initialize\<close> and the events after it\<close>

text \<open>
  The page holds what the script writes outside the DOM, the \<^verbatim>\<open>.plan-section\<close>
  elements in document order, the \<^verbatim>\<open>.learn-more-btn\<close> buttons, each with the position
  of its closest \<^verbatim>\<open>.plan-section\<close> (\<open>None\<close> when it has none), the icon placeholders,
  the vision surface and the chat widget.
\<close>

record page =
  world :: env
  sections :: "plan_section list"
  buttons :: "(button \<times> nat option) list"
  icons :: "placeholder list"
  vision :: vision_dom
  widget :: chat_widget

text \<open>
  \<^verbatim>\<open>initialize\<close> registers the listeners, which \<open>dispatch\<close> below runs, and calls
  \<^verbatim>\<open>generateIcons()\<close> and \<^verbatim>\<open>initChat()\<close>.  \<open>answers i\<close> is what the service does on the
  request of the \<open>i\<close>-th placeholder.
\<close>

definition initialize :: "(nat \<Rightarrow> error + response) \<Rightarrow> page \<Rightarrow> page" where
  "initialize answers pg =
     (let (w, phs) = generateIcons (world pg)
                       (zip (map answers [0..<length (icons pg)]) (icons pg))
      in pg\<lparr>world := w, icons := phs\<rparr>)"

text \<open>
  What can happen after that: a click on the \<open>i\<close>-th learn-more button, a click on the
  vision button, the user typing into the chat input, a submission of the chat form and
  a click on the chat toggle.  Each event carries what the service does during its
  handler.  A button that is not clickable dispatches nothing, and a vision button that
  does not exist got no listener (\<^verbatim>\<open>visionBtn?.addEventListener\<close>).  A handler runs from
  its dispatch to the end of its promise.
\<close>

datatype event =
    ExploreClick nat "error + stream"
  | VisionClick "error + stream"
  | ChatType jsstring
  | ChatSubmit submit_oracle
  | ChatToggle

text \<open>
  \<^verbatim>\<open>document.querySelectorAll('.plan-section h2')\<close> mapped to the text contents: every
  \<^verbatim>\<open>h2\<close> of every section, in document order.
\<close>

definition headings_of :: "page \<Rightarrow> jsstring list" where
  "headings_of pg = concat (map (\<lambda>sec. map textContent (h2_elems sec)) (sections pg))"

text \<open>\<^verbatim>\<open>button.closest('.plan-section')\<close> for a button of the page.\<close>

definition closest_section :: "page \<Rightarrow> nat option \<Rightarrow> plan_section option" where
  "closest_section pg idx =
     (case idx of
        None \<Rightarrow> None
      | Some j \<Rightarrow> if j < length (sections pg) then Some (sections pg ! j) else None)"

text \<open>The section a handler has worked on, written back to its place in the page.\<close>

definition put_section :: "nat option \<Rightarrow> plan_section option \<Rightarrow> plan_section list \<Rightarrow> plan_section list" where
  "put_section idx so secs =
     (case (idx, so) of
        (Some j, Some sec) \<Rightarrow> secs[j := sec]
      | _ \<Rightarrow> secs)"

definition dispatch :: "event \<Rightarrow> page \<Rightarrow> page" where
  "dispatch ev pg =
     (case ev of
        ExploreClick i r \<Rightarrow>
          (if i < length (buttons pg) \<and> clickable (fst (buttons pg ! i)) then
             (let idx = snd (buttons pg ! i)
              in case handleExploreClick r
                        (world pg, fst (buttons pg ! i), closest_section pg idx) of
                   (w, b, so) \<Rightarrow>
                     pg\<lparr>world := w,
                        buttons := (buttons pg)[i := (b, idx)],
                        sections := put_section idx so (sections pg)\<rparr>)
           else pg)
      | VisionClick r \<Rightarrow>
          (case visionBtn (vision pg) of
             None \<Rightarrow> pg
           | Some b \<Rightarrow>
              (if clickable b then
                 (case generateGrandVision r (headings_of pg) (world pg, vision pg) of
                    (w, v) \<Rightarrow> pg\<lparr>world := w, vision := v\<rparr>)
               else pg))
      | ChatType v \<Rightarrow> pg\<lparr>widget := (widget pg)\<lparr>input_value := v\<rparr>\<rparr>
      | ChatSubmit orc \<Rightarrow>
          (case chat_submit orc (world pg, widget pg) of
             (w, c) \<Rightarrow> pg\<lparr>world := w, widget := c\<rparr>)
      | ChatToggle \<Rightarrow> pg\<lparr>widget := chat_toggle_click (widget pg)\<rparr>)"

fun run :: "event list \<Rightarrow> page \<Rightarrow> page" where
  "run [] pg = pg"
| "run (ev # evs) pg = run evs (dispatch ev pg)"

section \<open>Notions used to state the properties\<close>

text \<open>The error a stream ends with, and the error of a streaming call as a whole.\<close>

fun failure :: "stream \<Rightarrow> error option" where
  "failure Done = None"
| "failure (Chunk c s) = failure s"
| "failure (Fail e) = Some e"

definition call_error :: "error + stream \<Rightarrow> error option" where
  "call_error r = (case r of Inl e \<Rightarrow> Some e | Inr s \<Rightarrow> failure s)"

text \<open>
  The one request a section's first expansion sends, built from its first heading and
  its first paragraph; \<open>None\<close> when the section lacks either.
\<close>

definition deep_dive_request :: "plan_section \<Rightarrow> request option" where
  "deep_dive_request sec =
     (case querySelector (h2_elems sec) of
        None \<Rightarrow> None
      | Some h2 \<Rightarrow>
         (case querySelector (p_elems sec) of
            None \<Rightarrow> None
          | Some p \<Rightarrow>
              Some (GenerateContentStream text_model
                     (deep_dive_prompt (textContent h2) (textContent p)))))"

text \<open>The paragraph a finished deep dive leaves in the details container.\<close>

definition detail_paragraph :: "jsstring \<Rightarrow> node list" where
  "detail_paragraph t =
     [ElemNode \<lparr>classList = [], style = [], tagName = js ''p'', textContent = t\<rparr>]"

text \<open>The two bubbles of a chat turn, as they stand once the handler has ended.\<close>

definition user_bubble :: "jsstring \<Rightarrow> text_element" where
  "user_bubble t =
     \<lparr>classList = [js ''message'', js ''user''], style = [], tagName = js ''div'',
      textContent = t\<rparr>"

definition assistant_bubble :: "jsstring \<Rightarrow> text_element" where
  "assistant_bubble t =
     \<lparr>classList = [js ''message'', js ''assistant''], style = [], tagName = js ''div'',
      textContent = t\<rparr>"

text \<open>The error the \<^verbatim>\<open>try\<close> block of a chat submission throws, if any.\<close>

definition submit_error :: "submit_oracle \<Rightarrow> chat_widget \<Rightarrow> error option" where
  "submit_error orc c =
     (case chat c of
        Some s \<Rightarrow> call_error (send_result orc)
      | None \<Rightarrow>
         (case create_result orc of
            Inl e \<Rightarrow> Some e
          | Inr s \<Rightarrow> call_error (send_result orc)))"



text \<open>The text a streaming call delivered.\<close>

definition received :: "error + stream \<Rightarrow> jsstring" where
  "received r = (case r of Inl e \<Rightarrow> [] | Inr s \<Rightarrow> concat (fragments s))"

text \<open>The one request of the vision generator.\<close>

definition vision_request :: "jsstring list \<Rightarrow> request" where
  "vision_request hs = GenerateContentStream text_model (vision_prompt (join (js '', '') hs))"

text \<open>The value of \<^verbatim>\<open>chat\<close> after a submission, and the requests the submission sends.\<close>

definition session_after :: "submit_oracle \<Rightarrow> chat_widget \<Rightarrow> session option" where
  "session_after orc c =
     (case chat c of
        Some s \<Rightarrow> Some s
      | None \<Rightarrow> (case create_result orc of Inl e \<Rightarrow> None | Inr s \<Rightarrow> Some s))"

definition submit_requests :: "submit_oracle \<Rightarrow> chat_widget \<Rightarrow> jsstring \<Rightarrow> request list" where
  "submit_requests orc c m =
     (case chat c of Some s \<Rightarrow> [] | None \<Rightarrow> [ChatsCreate text_model chat_instruction])
     @ (case session_after orc c of None \<Rightarrow> [] | Some s \<Rightarrow> [SendMessageStream s m])"

text \<open>What one iteration of the icon loop makes of a placeholder.\<close>

definition icon_outcome :: "error + response \<Rightarrow> placeholder \<Rightarrow> placeholder" where
  "icon_outcome r ph = snd (generateIcon r \<lparr>calls = [], console = []\<rparr> ph)"

section \<open>Concrete inputs\<close>

definition env0 :: env where
  "env0 = \<lparr>calls = [], console = []\<rparr>"

definition button0 :: button where
  "button0 =
     \<lparr>classList = [js ''learn-more-btn''], style = [], tagName = js ''button'',
      textContent = js ''Explore Frontier'', disabled = False,
      aria_expanded = Some (js ''false'')\<rparr>"

definition section0 :: plan_section where
  "section0 =
     \<lparr>sec_classList = [js ''plan-section''], dataset_content = None,
      h2_elems = [\<lparr>classList = [], style = [], tagName = js ''h2'',
                   textContent = js ''Fusion Dawn''\<rparr>],
      p_elems = [\<lparr>classList = [], style = [], tagName = js ''p'',
                  textContent = js ''Clean energy for every city.''\<rparr>],
      detailsContainer = Some []\<rparr>"



definition stream0 :: stream where
  "stream0 = Chunk (js ''Hello'') (Chunk (js '' '') (Chunk (js ''world'') Done))"

definition broken_stream :: stream where
  "broken_stream = Chunk (js ''Hel'') (Fail (ServiceError (js ''503'')))"

definition vision0 :: vision_dom where
  "vision0 =
     \<lparr>visionText =
        Some \<lparr>classList = [js ''placeholder-text''], style = [], tagName = js ''p'',
              textContent = js ''The vision awaits.''\<rparr>,
      visionBtn =
        Some \<lparr>classList = [], style = [], tagName = js ''button'',
              textContent = js ''Generate'', disabled = False, aria_expanded = None\<rparr>\<rparr>"

definition widget0 :: chat_widget where
  "widget0 =
     \<lparr>input_value = js ''  Hello '',
      messages = [assistant_bubble (js ''Welcome, traveller.'')],
      chat = None,
      widget_classList = [js ''collapsed''],
      toggle_textContent = [0x2191]\<rparr>"

definition oracle_ok :: submit_oracle where
  "oracle_ok = \<lparr>create_result = Inr 1, send_result = Inr stream0\<rparr>"

definition oracle_send_fails :: submit_oracle where
  "oracle_send_fails = \<lparr>create_result = Inr 1, send_result = Inr broken_stream\<rparr>"

definition oracle_create_fails :: submit_oracle where
  "oracle_create_fails =
     \<lparr>create_result = Inl (ServiceError (js ''401'')), send_result = Inr stream0\<rparr>"

definition placeholder0 :: placeholder where
  "placeholder0 =
     \<lparr>ph_style = [], dataset_phase = Some (js ''Fusion''),
      childNodes = [TextNode (js ''...'')]\<rparr>"

definition image_response :: response where
  "image_response =
     \<lparr>candidates = Some
        [\<lparr>cand_content = Some
            \<lparr>parts = Some
               [\<lparr>part_text = Some (js ''Here is the icon.''), inlineData = None\<rparr>,
                \<lparr>part_text = None,
                 inlineData = Some \<lparr>blob_data = Some (js ''iVBORw0KGgo='')\<rparr>\<rparr>]\<rparr>\<rparr>]\<rparr>"

definition text_only_response :: response where
  "text_only_response =
     \<lparr>candidates = Some
        [\<lparr>cand_content = Some
            \<lparr>parts = Some
               [\<lparr>part_text = Some (js ''I cannot draw that.''), inlineData = None\<rparr>]\<rparr>\<rparr>]\<rparr>"

definition page0 :: page where
  "page0 =
     \<lparr>world = env0, sections = [section0], buttons = [(button0, Some 0)],
      icons = [placeholder0],
      vision = vision0, widget = widget0\<rparr>"

definition icon_batch :: "((error + response) \<times> placeholder) list" where
  "icon_batch =
     [(Inr image_response, placeholder0),
      (Inl (ServiceError (js ''500'')), placeholder0\<lparr>dataset_phase := None\<rparr>),
      (Inr image_response, placeholder0\<lparr>dataset_phase := Some (js ''Orbit'')\<rparr>)]"

definition widget_blank :: chat_widget where
  "widget_blank = widget0\<lparr>input_value := [0x20, 0x09, 0xA0, 0x3000]\<rparr>"

definition oracle_other :: submit_oracle where
  "oracle_other = \<lparr>create_result = Inr 2, send_result = Inr stream0\<rparr>"


definition events0 :: "event list" where
  "events0 =
     [ChatType (js ''Hi''), ChatSubmit oracle_other, ExploreClick 0 (Inr stream0),
      VisionClick (Inl TypeError), ChatToggle, ChatSubmit oracle_ok]"

definition vision_done :: vision_dom where
  "vision_done =
     snd (generateGrandVision (Inr broken_stream) [js ''Fusion Dawn''] (env0, vision0))"

section \<open>Streams\<close>

lemma feed_eq: "feed t s = (t @ concat (fragments s), failure s)"
  by (induction s arbitrary: t) simp_all

lemma completes_failure: "completes s \<longleftrightarrow> failure s = None"
  by (induction s) simp_all

section \<open>Section expansion\<close>

text \<open>The two guards of the handler: without a section or a details container nothing happens.\<close>

lemma explore_guard:
  "handleExploreClick r (w, btn, None) = (w, btn, None)"
  "detailsContainer sec = None \<Longrightarrow> handleExploreClick r (w, btn, Some sec) = (w, btn, Some sec)"
  by (simp_all add: handleExploreClick_def)


lemma explore_collapse_click:
  assumes "is_expanded sec" "detailsContainer sec = Some dc"
  shows "handleExploreClick r (w, btn, Some sec) =
     (w, btn\<lparr>aria_expanded := Some (js ''false''), textContent := js ''Explore Frontier''\<rparr>,
      Some (sec\<lparr>sec_classList := removeAll (js ''expanded'') (sec_classList sec)\<rparr>))"
  using assms
  by (simp add: handleExploreClick_def is_expanded_def classList_toggle_def
      String_of_bool_def Let_def)

lemma deep_dive_request_cases:
  "deep_dive_request sec = Some q \<Longrightarrow>
     \<exists>h2 p. querySelector (h2_elems sec) = Some h2 \<and> querySelector (p_elems sec) = Some p
            \<and> q = GenerateContentStream text_model
                     (deep_dive_prompt (textContent h2) (textContent p))"
  by (auto simp: deep_dive_request_def split: option.splits)

lemma explore_try_request:
  "deep_dive_request sec = Some (GenerateContentStream m prompt) \<Longrightarrow>
     explore_try r w sec = explore_stream r prompt w sec"
  by (auto simp: explore_try_def deep_dive_request_def Let_def split: option.splits)

lemma explore_try_missing:
  "deep_dive_request sec = None \<Longrightarrow> explore_try r w sec = (Some TypeError, w, sec)"
  by (auto simp: explore_try_def deep_dive_request_def Let_def split: option.splits)

lemma deep_dive_request_frame [simp]:
  "deep_dive_request (sec\<lparr>sec_classList := cl\<rparr>) = deep_dive_request sec"
  "deep_dive_request (sec\<lparr>detailsContainer := d\<rparr>) = deep_dive_request sec"
  by (simp_all add: deep_dive_request_def cong: option.case_cong)

lemma explore_expand_success:
  assumes "\<not> is_loaded sec" "\<not> is_expanded sec" "detailsContainer sec = Some dc"
    "deep_dive_request sec = Some q" "completes s"
  shows "handleExploreClick (Inr s) (w, btn, Some sec) =
     (send q w,
      btn\<lparr>aria_expanded := Some (js ''true''), textContent := js ''Seal Frontier'',
          disabled := False\<rparr>,
      Some (sec\<lparr>sec_classList := sec_classList sec @ [js ''expanded''],
                detailsContainer := Some (detail_paragraph (concat (fragments s))),
                dataset_content := Some (js ''loaded'')\<rparr>))"
proof -
  from deep_dive_request_cases[OF assms(4)] obtain prompt where
    q: "q = GenerateContentStream text_model prompt" by blast
  have t: "explore_try r' w' (sec\<lparr>sec_classList := cl, detailsContainer := d\<rparr>)
             = explore_stream r' prompt w' (sec\<lparr>sec_classList := cl, detailsContainer := d\<rparr>)"
    for r' w' cl d
    using assms(4) by (intro explore_try_request[where m = text_model]) (simp add: q)
  show ?thesis
    using assms(1,2,3,5)
    by (simp add: handleExploreClick_def t explore_stream_def is_expanded_def is_loaded_def
        classList_toggle_def classList_remove_def String_of_bool_def Let_def createElement_def
        feed_eq completes_failure detail_paragraph_def q)
qed

lemma explore_expand_failure:
  assumes "\<not> is_loaded sec" "\<not> is_expanded sec" "detailsContainer sec = Some dc"
    "deep_dive_request sec = Some q" "call_error r = Some e"
  shows "handleExploreClick r (w, btn, Some sec) =
     (console_error (js ''Error:'') e (send q w),
      btn\<lparr>aria_expanded := Some (js ''true''), textContent := js ''Seal Frontier'',
          disabled := False\<rparr>,
      Some (sec\<lparr>sec_classList := sec_classList sec @ [js ''expanded''],
                detailsContainer := Some error_notice\<rparr>))"
proof -
  from deep_dive_request_cases[OF assms(4)] obtain prompt where
    q: "q = GenerateContentStream text_model prompt" by blast
  have t: "explore_try r' w' (sec\<lparr>sec_classList := cl, detailsContainer := d\<rparr>)
             = explore_stream r' prompt w' (sec\<lparr>sec_classList := cl, detailsContainer := d\<rparr>)"
    for r' w' cl d
    using assms(4) by (intro explore_try_request[where m = text_model]) (simp add: q)
  show ?thesis
    using assms(1,2,3,5)
    by (cases r) (simp_all add: handleExploreClick_def t explore_stream_def is_expanded_def
        is_loaded_def classList_toggle_def String_of_bool_def Let_def createElement_def
        feed_eq call_error_def q)
qed

text \<open>
  A section without a heading or without a paragraph: the lookup throws inside the
  \<^verbatim>\<open>try\<close>, so the expansion sends no request, logs the \<^verbatim>\<open>TypeError\<close> and shows the
  error paragraph.
\<close>

lemma explore_expand_missing:
  assumes "\<not> is_loaded sec" "\<not> is_expanded sec" "detailsContainer sec = Some dc"
    "deep_dive_request sec = None"
  shows "handleExploreClick r (w, btn, Some sec) =
     (console_error (js ''Error:'') TypeError w,
      btn\<lparr>aria_expanded := Some (js ''true''), textContent := js ''Seal Frontier'',
          disabled := False\<rparr>,
      Some (sec\<lparr>sec_classList := sec_classList sec @ [js ''expanded''],
                detailsContainer := Some error_notice\<rparr>))"
proof -
  have t: "explore_try r' w' (sec\<lparr>sec_classList := cl, detailsContainer := d\<rparr>)
             = (Some TypeError, w', sec\<lparr>sec_classList := cl, detailsContainer := d\<rparr>)"
    for r' w' cl d
    using assms(4) by (intro explore_try_missing) simp
  show ?thesis
    using assms(1,2,3)
    by (simp add: handleExploreClick_def t is_expanded_def is_loaded_def
        classList_toggle_def String_of_bool_def Let_def)
qed



lemma explore_expand_calls:
  assumes "\<not> is_loaded sec" "\<not> is_expanded sec" "detailsContainer sec = Some dc"
  shows "calls (fst (handleExploreClick r (w, btn, Some sec)))
           = calls w @ (case deep_dive_request sec of None \<Rightarrow> [] | Some q \<Rightarrow> [q])"
proof (cases "deep_dive_request sec")
  case None
  with assms show ?thesis by (simp add: explore_expand_missing console_error_def)
next
  case (Some q)
  show ?thesis
  proof (cases "call_error r")
    case None
    then obtain s where "r = Inr s" "completes s"
      by (cases r) (auto simp: call_error_def completes_failure)
    with assms Some show ?thesis by (simp add: explore_expand_success send_def)
  next
    case (Some e)
    with assms \<open>deep_dive_request sec = Some q\<close> show ?thesis
      by (simp add: explore_expand_failure send_def console_error_def)
  qed
qed



lemma section0_facts:
  "\<not> is_loaded section0" "\<not> is_expanded section0" "detailsContainer section0 = Some []"
  by (simp_all add: section0_def is_loaded_def is_expanded_def js_def)

lemma section0_request:
  "deep_dive_request section0
     = Some (GenerateContentStream text_model
               (deep_dive_prompt (js ''Fusion Dawn'') (js ''Clean energy for every city.'')))"
  by (simp add: deep_dive_request_def querySelector_def section0_def)



lemma stream0_facts: "completes stream0" "concat (fragments stream0) = js ''Hello world''"
  by (simp_all add: stream0_def js_def)


section \<open>What the vision generator and a chat submission compute\<close>

text \<open>The guard of the generator: without the text surface or the trigger nothing happens.\<close>

lemma vision_guard:
  "visionText v = None \<or> visionBtn v = None \<Longrightarrow> generateGrandVision r hs (w, v) = (w, v)"
  by (auto simp: generateGrandVision_def split: option.splits)

lemma vision_result:
  assumes "visionText v = Some vt" "visionBtn v = Some b"
  shows "generateGrandVision r hs (w, v) =
     (send (vision_request hs) w,
      v\<lparr>visionText :=
           Some (vt\<lparr>classList :=
                      removeAll (js ''streaming'')
                        (classList_add (js ''streaming'')
                           (removeAll (js ''placeholder-text'') (classList vt))),
                    textContent :=
                      (case call_error r of None \<Rightarrow> received r | Some e \<Rightarrow> vision_fallback)\<rparr>),
         visionBtn :=
           Some (b\<lparr>disabled := True,
                   style := setStyle (js ''display'') (js ''none'') (style b)\<rparr>)\<rparr>)"
  using assms
  by (cases r)
     (simp_all add: generateGrandVision_def vision_try_def Let_def feed_eq call_error_def
        received_def vision_request_def classList_remove_def split: option.splits)

lemma streaming_distinct:
  "js ''streaming'' \<noteq> js ''message''" "js ''streaming'' \<noteq> js ''assistant''"
  "js ''message'' \<noteq> js ''streaming''" "js ''assistant'' \<noteq> js ''streaming''"
  by (simp_all add: js_def)

lemma update_second_new: "(xs @ [a, b])[Suc (length xs) := c] = xs @ [a, c]"
  by (simp add: list_update_append)

lemma nth_second_new: "(xs @ [a, b]) ! Suc (length xs) = b"
  by (simp add: nth_append)

lemma chat_submit_empty:
  "trim (input_value c) = [] \<Longrightarrow> chat_submit orc (w, c) = (w, c)"
  by (simp add: chat_submit_def)

lemma chat_submit_nonempty:
  assumes "trim (input_value c) \<noteq> []"
  shows "chat_submit orc (w, c) =
     (w\<lparr>calls := calls w @ submit_requests orc c (trim (input_value c))\<rparr>,
      c\<lparr>messages := messages c @
           [user_bubble (trim (input_value c)),
            assistant_bubble
              (case submit_error orc c of
                 None \<Rightarrow> received (send_result orc)
               | Some e \<Rightarrow> chat_apology)],
        input_value := [],
        chat := session_after orc c\<rparr>)"
proof (cases "chat c")
  case None
  show ?thesis
  proof (cases "create_result orc")
    case (Inl e)
    with None assms show ?thesis
      by (simp add: chat_submit_def submit_try_def Let_def send_def submit_requests_def
          session_after_def submit_error_def user_bubble_def assistant_bubble_def
          createElement_def classList_remove_def streaming_distinct update_second_new nth_second_new)
  next
    case (Inr s)
    with None assms show ?thesis
      by (cases "send_result orc")
         (simp_all add: chat_submit_def submit_try_def submit_send_def Let_def send_def
          submit_requests_def session_after_def submit_error_def user_bubble_def
          assistant_bubble_def createElement_def classList_remove_def streaming_distinct update_second_new nth_second_new feed_eq
          call_error_def received_def split: option.splits)
  qed
next
  case (Some s)
  with assms show ?thesis
    by (cases "send_result orc")
       (simp_all add: chat_submit_def submit_try_def submit_send_def Let_def send_def
        submit_requests_def session_after_def submit_error_def user_bubble_def
        assistant_bubble_def createElement_def classList_remove_def streaming_distinct update_second_new nth_second_new feed_eq
        call_error_def received_def split: option.splits)
qed

text \<open>
  Claim C2.  When the first expansion's call (the request \<open>q\<close> of the section) fails, at
  the handshake or in mid-stream, the section's \<^verbatim>\<open>dataset.content\<close> is unchanged and so not \<open>loaded\<close>, the details
  container shows the fixed error paragraph, the button is enabled again, and the next
  expand attempt (a click that collapses, then a click that expands) sends exactly one
  new request, whatever the service answers then.
\<close>

theorem section_failure_retry:
  assumes "\<not> is_loaded sec" "\<not> is_expanded sec" "detailsContainer sec = Some dc"
    and "deep_dive_request sec = Some q"
    and "call_error r = Some e"
  shows "\<exists>w1 btn1 sec1.
           handleExploreClick r (w, btn, Some sec) = (w1, btn1, Some sec1)
           \<and> calls w1 = calls w @ [q]
           \<and> dataset_content sec1 = dataset_content sec \<and> \<not> is_loaded sec1
           \<and> detailsContainer sec1 = Some error_notice
           \<and> \<not> disabled btn1
           \<and> (\<forall>r2 r3. calls (fst (explore_clicks [r2, r3] (w1, btn1, Some sec1)))
                          = calls w1 @ [q])"
proof -
  define w1 where "w1 = console_error (js ''Error:'') e (send q w)"
  define btn1 where
    "btn1 = btn\<lparr>aria_expanded := Some (js ''true''), textContent := js ''Seal Frontier'',
                 disabled := False\<rparr>"
  define sec1 where
    "sec1 = sec\<lparr>sec_classList := sec_classList sec @ [js ''expanded''],
                 detailsContainer := Some error_notice\<rparr>"
  have step: "handleExploreClick r (w, btn, Some sec) = (w1, btn1, Some sec1)"
    using assms by (simp add: explore_expand_failure w1_def btn1_def sec1_def)
  have exp1: "is_expanded sec1" and det1: "detailsContainer sec1 = Some error_notice"
    and nl1: "\<not> is_loaded sec1" and dc1: "dataset_content sec1 = dataset_content sec"
    using assms(1) by (simp_all add: sec1_def is_expanded_def is_loaded_def)
  have retry: "calls (fst (explore_clicks [r2, r3] (w1, btn1, Some sec1)))
                 = calls w1 @ [q]" for r2 r3
  proof -
    define sec2 where
      "sec2 = sec1\<lparr>sec_classList := removeAll (js ''expanded'') (sec_classList sec1)\<rparr>"
    define btn2 where
      "btn2 = btn1\<lparr>aria_expanded := Some (js ''false''),
                   textContent := js ''Explore Frontier''\<rparr>"
    have collapse: "handleExploreClick r2 (w1, btn1, Some sec1) = (w1, btn2, Some sec2)"
      using exp1 det1 by (simp add: explore_collapse_click sec2_def btn2_def)
    have "\<not> is_loaded sec2" "\<not> is_expanded sec2" "detailsContainer sec2 = Some error_notice"
      using nl1 det1 by (simp_all add: sec2_def is_loaded_def is_expanded_def)
    then have "calls (fst (handleExploreClick r3 (w1, btn2, Some sec2)))
                 = calls w1 @ (case deep_dive_request sec2 of None \<Rightarrow> [] | Some q \<Rightarrow> [q])"
      by (rule explore_expand_calls)
    moreover have "deep_dive_request sec2 = Some q"
      using assms(4) by (simp add: sec2_def sec1_def)
    ultimately show ?thesis using collapse by simp
  qed
  have "calls w1 = calls w @ [q]"
    by (simp add: w1_def console_error_def send_def)
  moreover have "\<not> disabled btn1" by (simp add: btn1_def)
  ultimately show ?thesis using step dc1 nl1 det1 retry by blast
qed

lemma broken_stream_error:
  "call_error (Inr broken_stream) = Some (ServiceError (js ''503''))"
  by (simp add: call_error_def broken_stream_def)

theorem section_failure_retry_witness:
  "\<not> is_loaded section0 \<and> \<not> is_expanded section0 \<and> detailsContainer section0 = Some []
   \<and> deep_dive_request section0
       = Some (GenerateContentStream text_model
                 (deep_dive_prompt (js ''Fusion Dawn'') (js ''Clean energy for every city.'')))
   \<and> call_error (Inr broken_stream) = Some (ServiceError (js ''503''))
   \<and> (\<exists>w1 btn1 sec1.
         handleExploreClick (Inr broken_stream) (env0, button0, Some section0)
           = (w1, btn1, Some sec1)
         \<and> calls w1 = calls env0 @
              [GenerateContentStream text_model
                 (deep_dive_prompt (js ''Fusion Dawn'') (js ''Clean energy for every city.''))]
         \<and> dataset_content sec1 = dataset_content section0 \<and> \<not> is_loaded sec1
         \<and> detailsContainer sec1 = Some error_notice
         \<and> \<not> disabled btn1
         \<and> (\<forall>r2 r3. calls (fst (explore_clicks [r2, r3] (w1, btn1, Some sec1)))
                        = calls w1 @
                            [GenerateContentStream text_model
                               (deep_dive_prompt (js ''Fusion Dawn'')
                                  (js ''Clean energy for every city.''))]))"
  using section_failure_retry
          [OF section0_facts section0_request broken_stream_error, of env0 button0]
        section0_facts section0_request broken_stream_error
  by blast

text \<open>
  Claim C3.  A stream that completes leaves on its target the fragments in delivery
  order, each once: the loop appends them to the text it starts from, and the section's
  paragraph, the vision text and the assistant bubble all start from the empty text.
\<close>

theorem streamed_text_is_concatenation:
  "(completes s \<longrightarrow> feed t s = (t @ concat (fragments s), None))
   \<and> (\<not> is_loaded sec \<and> \<not> is_expanded sec \<and> detailsContainer sec = Some dc
        \<and> deep_dive_request sec = Some q \<and> completes s \<longrightarrow>
        (\<exists>w' btn' sec'.
           handleExploreClick (Inr s) (w, btn, Some sec) = (w', btn', Some sec')
           \<and> detailsContainer sec' = Some (detail_paragraph (concat (fragments s)))))
   \<and> (visionText v = Some vt \<and> visionBtn v = Some b \<and> completes s \<longrightarrow>
        (\<exists>w' v' vt'.
           generateGrandVision (Inr s) hs (w, v) = (w', v')
           \<and> visionText v' = Some vt' \<and> textContent vt' = concat (fragments s)))
   \<and> (trim (input_value c) \<noteq> [] \<and> submit_error orc c = None \<and> send_result orc = Inr s \<longrightarrow>
        (\<exists>w' c'.
           chat_submit orc (w, c) = (w', c')
           \<and> messages c' = messages c @
                [user_bubble (trim (input_value c)),
                 assistant_bubble (concat (fragments s))]))"
proof (intro conjI impI)
  assume "completes s"
  then show "feed t s = (t @ concat (fragments s), None)"
    by (simp add: feed_eq completes_failure)
next
  assume "\<not> is_loaded sec \<and> \<not> is_expanded sec \<and> detailsContainer sec = Some dc
        \<and> deep_dive_request sec = Some q \<and> completes s"
  then show "\<exists>w' btn' sec'.
           handleExploreClick (Inr s) (w, btn, Some sec) = (w', btn', Some sec')
           \<and> detailsContainer sec' = Some (detail_paragraph (concat (fragments s)))"
    by (simp add: explore_expand_success)
next
  assume "visionText v = Some vt \<and> visionBtn v = Some b \<and> completes s"
  then show "\<exists>w' v' vt'.
           generateGrandVision (Inr s) hs (w, v) = (w', v')
           \<and> visionText v' = Some vt' \<and> textContent vt' = concat (fragments s)"
    by (simp add: vision_result call_error_def completes_failure received_def)
next
  assume "trim (input_value c) \<noteq> [] \<and> submit_error orc c = None \<and> send_result orc = Inr s"
  then show "\<exists>w' c'.
           chat_submit orc (w, c) = (w', c')
           \<and> messages c' = messages c @
                [user_bubble (trim (input_value c)),
                 assistant_bubble (concat (fragments s))]"
    by (simp add: chat_submit_nonempty received_def)
qed

lemma widget0_message: "trim (input_value widget0) = js ''Hello''"
  by (simp add: widget0_def trim_def isWhiteSpace_def js_def)

lemma js_Hello_nonempty: "js ''Hello'' \<noteq> []"
  by (simp add: js_def)

lemma vision0_facts:
  "visionText vision0 = Some \<lparr>classList = [js ''placeholder-text''], style = [], tagName = js ''p'',
              textContent = js ''The vision awaits.''\<rparr>"
  "visionBtn vision0 = Some \<lparr>classList = [], style = [], tagName = js ''button'',
              textContent = js ''Generate'', disabled = False, aria_expanded = None\<rparr>"
  by (simp_all add: vision0_def)

lemma oracle_ok_facts:
  "submit_error oracle_ok widget0 = None" "send_result oracle_ok = Inr stream0"
  by (simp_all add: oracle_ok_def widget0_def submit_error_def call_error_def stream0_def)

theorem streamed_text_is_concatenation_witness:
  "completes stream0
   \<and> feed [] stream0 = ([] @ concat (fragments stream0), None)
   \<and> \<not> is_loaded section0 \<and> \<not> is_expanded section0 \<and> detailsContainer section0 = Some []
   \<and> deep_dive_request section0 \<noteq> None
   \<and> (\<exists>w' btn' sec'.
         handleExploreClick (Inr stream0) (env0, button0, Some section0) = (w', btn', Some sec')
         \<and> detailsContainer sec' = Some (detail_paragraph (concat (fragments stream0))))
   \<and> visionText vision0 \<noteq> None \<and> visionBtn vision0 \<noteq> None
   \<and> (\<exists>w' v' vt'.
         generateGrandVision (Inr stream0) [js ''Fusion Dawn''] (env0, vision0) = (w', v')
         \<and> visionText v' = Some vt' \<and> textContent vt' = concat (fragments stream0))
   \<and> trim (input_value widget0) \<noteq> [] \<and> submit_error oracle_ok widget0 = None
   \<and> send_result oracle_ok = Inr stream0
   \<and> (\<exists>w' c'.
         chat_submit oracle_ok (env0, widget0) = (w', c')
         \<and> messages c' = messages widget0 @
              [user_bubble (trim (input_value widget0)),
               assistant_bubble (concat (fragments stream0))])"
  using streamed_text_is_concatenation
          [of stream0 "[]" section0 "[]"
              "GenerateContentStream text_model
                 (deep_dive_prompt (js ''Fusion Dawn'') (js ''Clean energy for every city.''))"
              env0 button0 vision0 _ _ "[js ''Fusion Dawn'']" widget0 oracle_ok]
        section0_facts section0_request stream0_facts(1) vision0_facts oracle_ok_facts
        widget0_message js_Hello_nonempty
  by simp

section \<open>Icons\<close>

lemma generateIcon_placeholder: "snd (generateIcon r w ph) = icon_outcome r ph"
  by (simp add: icon_outcome_def generateIcon_def icon_try_def Let_def
      split: sum.splits option.splits)

lemma generateIcon_calls:
  "calls (fst (generateIcon r w ph))
     = calls w @ [GenerateContent image_model (icon_prompt (phaseName_of ph)) (js ''1:1'')]"
  by (simp add: generateIcon_def icon_try_def Let_def send_def console_error_def
      split: sum.splits option.splits)

lemma generateIcons_placeholders:
  "snd (generateIcons w xs) = map (\<lambda>(r, ph). icon_outcome r ph) xs"
proof (induction xs arbitrary: w)
  case Nil
  then show ?case by simp
next
  case (Cons x xs)
  obtain r ph where x: "x = (r, ph)" by (cases x)
  obtain w1 ph1 where g: "generateIcon r w ph = (w1, ph1)" by (cases "generateIcon r w ph")
  then have "ph1 = icon_outcome r ph"
    using generateIcon_placeholder[of r w ph] by simp
  with Cons.IH[of w1] x g show ?case
    by (simp add: split_beta)
qed

lemma generateIcons_calls:
  "length (calls (fst (generateIcons w xs))) = length (calls w) + length xs"
proof (induction xs arbitrary: w)
  case Nil
  then show ?case by simp
next
  case (Cons x xs)
  obtain r ph where x: "x = (r, ph)" by (cases x)
  obtain w1 ph1 where g: "generateIcon r w ph = (w1, ph1)" by (cases "generateIcon r w ph")
  then have "length (calls w1) = Suc (length (calls w))"
    using generateIcon_calls[of r w ph] by simp
  with Cons.IH[of w1] x g show ?case
    by (simp add: split_beta)
qed

lemma fontSize_neq_color: "js ''fontSize'' \<noteq> js ''color''"
  by (simp add: js_def)

lemma icon_outcome_thrown: "shows_fallback (icon_outcome (Inl e) ph)"
  by (simp add: icon_outcome_def generateIcon_def icon_try_def Let_def shows_fallback_def
      setStyle_def update_conv' fontSize_neq_color)

lemma place_image_shows:
  "list_ex (\<lambda>pt. inlineData pt \<noteq> None) ps \<Longrightarrow> shows_image (place_image n ps ph)"
  by (induction ps) (auto simp: shows_image_def split: option.splits)

lemma place_image_none:
  "\<not> list_ex (\<lambda>pt. inlineData pt \<noteq> None) ps \<Longrightarrow> place_image n ps ph = ph"
  by (induction ps) (auto split: option.splits)

lemma icon_outcome_image:
  "has_inline_image resp \<Longrightarrow> shows_image (icon_outcome (Inr resp) ph)"
  by (auto simp: icon_outcome_def generateIcon_def icon_try_def Let_def has_inline_image_def
      place_image_shows split: sum.splits)

lemma image_not_fallback: "shows_image ph \<Longrightarrow> \<not> shows_fallback ph"
  by (auto simp: shows_image_def shows_fallback_def)

text \<open>
  Claim C5.  In a list of placeholders where the request of exactly one throws and every
  other request returns a response with an inline image, every placeholder is processed
  (one request each): the failing one gets the fallback glyph and its styling, every
  other one gets an image, so there are N - 1 images and one glyph.
\<close>

theorem icon_failure_isolated:
  assumes "i < length xs" and "fst (xs ! i) = Inl e"
    and "\<forall>j<length xs. j \<noteq> i \<longrightarrow> (\<exists>resp. fst (xs ! j) = Inr resp \<and> has_inline_image resp)"
  shows "length (snd (generateIcons w xs)) = length xs
         \<and> length (calls (fst (generateIcons w xs))) = length (calls w) + length xs
         \<and> shows_fallback (snd (generateIcons w xs) ! i)
         \<and> (\<forall>j<length xs. j \<noteq> i \<longrightarrow> shows_image (snd (generateIcons w xs) ! j))
         \<and> length (filter shows_image (snd (generateIcons w xs))) = length xs - 1
         \<and> length (filter shows_fallback (snd (generateIcons w xs))) = 1"
proof -
  define phs where "phs = snd (generateIcons w xs)"
  have phs: "phs = map (\<lambda>(r, ph). icon_outcome r ph) xs"
    by (simp add: phs_def generateIcons_placeholders)
  then have len: "length phs = length xs" by simp
  have nth: "phs ! j = icon_outcome (fst (xs ! j)) (snd (xs ! j))" if "j < length xs" for j
    using that by (simp add: phs split_beta)
  have fb: "shows_fallback (phs ! i)"
    using assms(1,2) by (simp add: nth icon_outcome_thrown)
  have img: "shows_image (phs ! j)" if "j < length xs" "j \<noteq> i" for j
  proof -
    from assms(3) that obtain resp where "fst (xs ! j) = Inr resp" "has_inline_image resp"
      by blast
    with that(1) show ?thesis by (simp add: nth icon_outcome_image)
  qed
  have img_set: "{j. j < length phs \<and> shows_image (phs ! j)} = {..<length xs} - {i}"
    using img fb image_not_fallback len by auto
  have fb_set: "{j. j < length phs \<and> shows_fallback (phs ! j)} = {i}"
    using img fb image_not_fallback len assms(1) by auto
  have "length (filter shows_image phs) = length xs - 1"
    using assms(1) by (simp add: length_filter_conv_card img_set)
  moreover have "length (filter shows_fallback phs) = 1"
    by (simp add: length_filter_conv_card fb_set)
  ultimately show ?thesis
    using len fb img generateIcons_calls[of w xs] unfolding phs_def by blast
qed

lemma image_response_has_image: "has_inline_image image_response"
  by (simp add: has_inline_image_def response_parts_def image_response_def)

lemma icon_batch_facts:
  "(1::nat) < length icon_batch"
  "fst (icon_batch ! 1) = Inl (ServiceError (js ''500''))"
  "\<forall>j<length icon_batch. j \<noteq> 1 \<longrightarrow>
     (\<exists>resp. fst (icon_batch ! j) = Inr resp \<and> has_inline_image resp)"
  by (auto simp: icon_batch_def less_Suc_eq image_response_has_image)

theorem icon_failure_isolated_witness:
  "(1::nat) < length icon_batch
   \<and> fst (icon_batch ! 1) = Inl (ServiceError (js ''500''))
   \<and> length icon_batch = 3
   \<and> fst (icon_batch ! 0) = Inr image_response
   \<and> fst (icon_batch ! 2) = Inr image_response
   \<and> has_inline_image image_response
   \<and> length (snd (generateIcons env0 icon_batch)) = 3
   \<and> length (calls (fst (generateIcons env0 icon_batch))) = 3
   \<and> shows_fallback (snd (generateIcons env0 icon_batch) ! 1)
   \<and> shows_image (snd (generateIcons env0 icon_batch) ! 0)
   \<and> shows_image (snd (generateIcons env0 icon_batch) ! 2)
   \<and> length (filter shows_image (snd (generateIcons env0 icon_batch))) = 2
   \<and> length (filter shows_fallback (snd (generateIcons env0 icon_batch))) = 1"
proof -
  have len: "length icon_batch = 3" by (simp add: icon_batch_def)
  have "calls env0 = []" by (simp add: env0_def)
  moreover have "fst (icon_batch ! 0) = Inr image_response"
    "fst (icon_batch ! 2) = Inr image_response"
    by (simp_all add: icon_batch_def)
  ultimately show ?thesis
    using icon_failure_isolated[OF icon_batch_facts, of env0] icon_batch_facts(1,2) len
      image_response_has_image
    by simp
qed

text \<open>
  A response whose parts carry no inline data: the request is sent and the placeholder
  comes back as it was.
\<close>

lemma icon_without_payload_unchanged:
  assumes "response_parts resp = Inr ps" "\<not> list_ex (\<lambda>pt. inlineData pt \<noteq> None) ps"
  shows "generateIcon (Inr resp) w ph
           = (send (GenerateContent image_model (icon_prompt (phaseName_of ph)) (js ''1:1'')) w,
              ph)"
  using assms by (simp add: generateIcon_def icon_try_def Let_def place_image_none)

text \<open>
  Claim C4.  The claim wants a response without inline image data to end in the fallback
  glyph.  The code does that only when the request throws or the response has no parts to
  iterate; on a response whose parts carry no inline data the loop ends without a match
  and nothing else runs: the request was sent, nothing is logged, and the placeholder is
  returned as it was, neither image nor glyph.
\<close>

theorem icon_without_payload_stays_pending:
  "response_parts text_only_response
     = Inr [\<lparr>part_text = Some (js ''I cannot draw that.''), inlineData = None\<rparr>]
   \<and> \<not> has_inline_image text_only_response
   \<and> generateIcon (Inr text_only_response) env0 placeholder0
       = (send (GenerateContent image_model (icon_prompt (js ''Fusion'')) (js ''1:1'')) env0,
          placeholder0)
   \<and> console (fst (generateIcon (Inr text_only_response) env0 placeholder0)) = []
   \<and> \<not> shows_image (snd (generateIcon (Inr text_only_response) env0 placeholder0))
   \<and> \<not> shows_fallback (snd (generateIcon (Inr text_only_response) env0 placeholder0))"
proof -
  have p: "response_parts text_only_response
     = Inr [\<lparr>part_text = Some (js ''I cannot draw that.''), inlineData = None\<rparr>]"
    by (simp add: response_parts_def text_only_response_def)
  have n: "phaseName_of placeholder0 = js ''Fusion''"
    by (simp add: phaseName_of_def placeholder0_def js_def)
  have g: "generateIcon (Inr text_only_response) env0 placeholder0
       = (send (GenerateContent image_model (icon_prompt (js ''Fusion'')) (js ''1:1'')) env0,
          placeholder0)"
    by (simp add: generateIcon_def icon_try_def Let_def p n)
  have "\<not> shows_image placeholder0" "\<not> shows_fallback placeholder0"
    by (simp_all add: shows_image_def shows_fallback_def placeholder0_def)
  with p g show ?thesis
    by (simp add: has_inline_image_def send_def env0_def)
qed

section \<open>Chat submissions\<close>

text \<open>
  Claim C6.  A submission whose trimmed input is not empty appends exactly two bubbles
  to the transcript, a user bubble with the trimmed text and then an assistant bubble,
  and clears the input.  A submission whose trimmed input is empty changes nothing:
  no bubble, no request.
\<close>

theorem chat_submission_messages:
  "(trim (input_value c) \<noteq> [] \<longrightarrow>
      (\<exists>w' c' reply.
         chat_submit orc (w, c) = (w', c')
         \<and> messages c' = messages c @
              [user_bubble (trim (input_value c)), assistant_bubble reply]
         \<and> input_value c' = []))
   \<and> (trim (input_value c) = [] \<longrightarrow> chat_submit orc (w, c) = (w, c))"
  by (auto simp: chat_submit_nonempty chat_submit_empty)

lemma widget_blank_message: "trim (input_value widget_blank) = []"
  by (simp add: widget_blank_def trim_def isWhiteSpace_def)

theorem chat_submission_messages_witness:
  "trim (input_value widget0) \<noteq> []
   \<and> (\<exists>w' c' reply.
         chat_submit oracle_ok (env0, widget0) = (w', c')
         \<and> messages c' = messages widget0 @ [user_bubble (js ''Hello''), assistant_bubble reply]
         \<and> input_value c' = [])
   \<and> trim (input_value widget_blank) = []
   \<and> chat_submit oracle_ok (env0, widget_blank) = (env0, widget_blank)"
  using chat_submission_messages[of widget0 oracle_ok env0]
        chat_submission_messages[of widget_blank oracle_ok env0]
        widget0_message js_Hello_nonempty widget_blank_message
  by simp

text \<open>
  Claim C10.  When the session creation or the streaming send of a submission fails
  (at the call or in mid-stream), the transcript is the earlier one, untouched, followed
  by the user bubble of this submission and an assistant bubble holding the fixed
  apology, without the streaming mark; the input stays cleared and the rest of the
  widget is as before.
\<close>

theorem chat_failure_frame:
  assumes "trim (input_value c) \<noteq> []" and "submit_error orc c = Some e"
  shows "\<exists>w' c'.
           chat_submit orc (w, c) = (w', c')
           \<and> messages c' = messages c @
                [user_bubble (trim (input_value c)), assistant_bubble chat_apology]
           \<and> take (length (messages c)) (messages c') = messages c
           \<and> js ''streaming'' \<notin> set (classList (last (messages c')))
           \<and> input_value c' = []
           \<and> widget_classList c' = widget_classList c
           \<and> toggle_textContent c' = toggle_textContent c"
  using assms
  by (simp add: chat_submit_nonempty assistant_bubble_def streaming_distinct)

lemma oracle_failures:
  "submit_error oracle_create_fails widget0 = Some (ServiceError (js ''401''))"
  "submit_error oracle_send_fails widget0 = Some (ServiceError (js ''503''))"
  by (simp_all add: submit_error_def oracle_create_fails_def oracle_send_fails_def widget0_def
      call_error_def broken_stream_def)

theorem chat_failure_frame_witness:
  "trim (input_value widget0) \<noteq> []
   \<and> submit_error oracle_create_fails widget0 = Some (ServiceError (js ''401''))
   \<and> submit_error oracle_send_fails widget0 = Some (ServiceError (js ''503''))
   \<and> (\<exists>w' c'.
         chat_submit oracle_create_fails (env0, widget0) = (w', c')
         \<and> messages c' = messages widget0 @
              [user_bubble (js ''Hello''), assistant_bubble chat_apology]
         \<and> input_value c' = [])
   \<and> (\<exists>w' c'.
         chat_submit oracle_send_fails (env0, widget0) = (w', c')
         \<and> messages c' = messages widget0 @
              [user_bubble (js ''Hello''), assistant_bubble chat_apology]
         \<and> input_value c' = [])"
proof -
  have ne: "trim (input_value widget0) \<noteq> []"
    by (simp add: widget0_message js_Hello_nonempty)
  from chat_failure_frame[OF ne oracle_failures(1), of env0]
       chat_failure_frame[OF ne oracle_failures(2), of env0]
       ne oracle_failures widget0_message
  show ?thesis by auto
qed

section \<open>The chat session over the life of the page\<close>

















section \<open>The vision generator\<close>

lemma display_none_hidden:
  "hidden (b\<lparr>disabled := d, style := setStyle (js ''display'') (js ''none'') (style b)\<rparr>)"
  by (simp add: hidden_def setStyle_def update_conv')

lemma vision_fallback_distinct: "vision_fallback \<noteq> feeder_error_text"
  by (simp add: vision_fallback_def feeder_error_text_def js_def)

lemma dispatch_vision_frozen:
  assumes "visionBtn (vision pg) = Some b" "\<not> clickable b"
  shows "vision (dispatch ev pg) = vision pg"
  using assms
  by (cases ev) (simp_all add: dispatch_def split_beta Let_def)

lemma run_vision_frozen:
  assumes "visionBtn (vision pg) = Some b" "\<not> clickable b"
  shows "vision (run evs pg) = vision pg"
  using assms
proof (induction evs arbitrary: pg)
  case Nil
  then show ?case by simp
next
  case (Cons ev evs)
  have "vision (dispatch ev pg) = vision pg"
    using Cons.prems by (rule dispatch_vision_frozen)
  with Cons.IH[of "dispatch ev pg"] Cons.prems show ?case by simp
qed

text \<open>
  Claim C8.  An invocation of the vision generator on a page that has the text surface
  and the trigger leaves the trigger hidden (\<^verbatim>\<open>display: none\<close>) and disabled, so not
  clickable, and the text surface without the streaming mark, whether the stream
  succeeded or failed; on failure the text is the vision's own fallback sentence, which
  is not the error text of the section feeder.  The hiding is permanent: on any page
  with the vision surface in that state, every run of events leaves it in that state,
  and a click on the trigger dispatches nothing.
\<close>

theorem vision_one_shot:
  assumes "visionText v = Some vt" and "visionBtn v = Some b"
    and "generateGrandVision r hs (w, v) = (w', v')"
  shows "(\<exists>vt' b'.
            visionText v' = Some vt' \<and> visionBtn v' = Some b'
            \<and> hidden b' \<and> disabled b' \<and> \<not> clickable b'
            \<and> js ''streaming'' \<notin> set (classList vt')
            \<and> (call_error r \<noteq> None \<longrightarrow> textContent vt' = vision_fallback)
            \<and> vision_fallback \<noteq> feeder_error_text)
         \<and> (\<forall>pg evs.
               vision pg = v' \<longrightarrow>
                 vision (run evs pg) = v'
                 \<and> (\<forall>r'. dispatch (VisionClick r') (run evs pg) = run evs pg))"
proof -
  define b' where
    "b' = b\<lparr>disabled := True, style := setStyle (js ''display'') (js ''none'') (style b)\<rparr>"
  define vt' where
    "vt' = vt\<lparr>classList :=
                 removeAll (js ''streaming'')
                   (classList_add (js ''streaming'')
                      (removeAll (js ''placeholder-text'') (classList vt))),
               textContent :=
                 (case call_error r of None \<Rightarrow> received r | Some e \<Rightarrow> vision_fallback)\<rparr>"
  have v': "v' = v\<lparr>visionText := Some vt', visionBtn := Some b'\<rparr>"
    using assms by (simp add: vision_result vt'_def b'_def)
  have hb: "hidden b'" unfolding b'_def by (rule display_none_hidden)
  then have nc: "\<not> clickable b'" by (simp add: clickable_def)
  have first: "visionText v' = Some vt' \<and> visionBtn v' = Some b'
            \<and> hidden b' \<and> disabled b' \<and> \<not> clickable b'
            \<and> js ''streaming'' \<notin> set (classList vt')
            \<and> (call_error r \<noteq> None \<longrightarrow> textContent vt' = vision_fallback)
            \<and> vision_fallback \<noteq> feeder_error_text"
    using hb nc vision_fallback_distinct by (auto simp: v' vt'_def b'_def)
  have frozen: "vision (run evs pg) = v'
                 \<and> (\<forall>r'. dispatch (VisionClick r') (run evs pg) = run evs pg)"
    if "vision pg = v'" for pg evs
  proof -
    have btn: "visionBtn (vision pg) = Some b'" using that by (simp add: v')
    have keep: "vision (run evs pg) = v'"
      using run_vision_frozen[OF btn nc, of evs] that by simp
    then have "visionBtn (vision (run evs pg)) = Some b'" by (simp add: v')
    then have "dispatch (VisionClick r') (run evs pg) = run evs pg" for r'
      using nc by (simp add: dispatch_def)
    with keep show ?thesis by simp
  qed
  from first frozen show ?thesis by blast
qed

lemma vision_done_eq:
  "generateGrandVision (Inr broken_stream) [js ''Fusion Dawn''] (env0, vision0)
     = (send (vision_request [js ''Fusion Dawn'']) env0, vision_done)"
  by (simp add: vision_done_def vision_result[OF vision0_facts])

theorem vision_one_shot_witness:
  "visionText vision0 \<noteq> None \<and> visionBtn vision0 \<noteq> None
   \<and> call_error (Inr broken_stream) \<noteq> None
   \<and> (\<exists>vt' b'.
         visionText vision_done = Some vt' \<and> visionBtn vision_done = Some b'
         \<and> hidden b' \<and> disabled b' \<and> \<not> clickable b'
         \<and> js ''streaming'' \<notin> set (classList vt')
         \<and> textContent vt' = vision_fallback)
   \<and> vision (page0\<lparr>vision := vision_done\<rparr>) = vision_done
   \<and> vision (run events0 (page0\<lparr>vision := vision_done\<rparr>)) = vision_done
   \<and> dispatch (VisionClick (Inr stream0)) (run events0 (page0\<lparr>vision := vision_done\<rparr>))
       = run events0 (page0\<lparr>vision := vision_done\<rparr>)"
proof -
  have p: "vision (page0\<lparr>vision := vision_done\<rparr>) = vision_done" by simp
  from vision_one_shot[OF vision0_facts vision_done_eq]
       p vision0_facts broken_stream_error
  show ?thesis by (simp del: run.simps) blast
qed

section \<open>Logging of failures\<close>

text \<open>Neither the vision generator nor the chat listener ever writes to the console.\<close>

lemma vision_never_logs: "console (fst (generateGrandVision r hs (w, v))) = console w"
  by (cases r)
     (auto simp: generateGrandVision_def vision_try_def Let_def send_def feed_eq
        split: option.splits prod.splits)

lemma chat_never_logs: "console (fst (chat_submit orc (w, c))) = console w"
  by (cases "trim (input_value c) = []")
     (simp_all add: chat_submit_nonempty chat_submit_empty)

text \<open>
  Claim C9.  The claim wants every failure, in every controller, both turned into a
  fixed fallback and logged where it is caught.  The section handler and the icon loop
  do both for a thrown error.  The vision generator and the chat listener turn the
  failure into their fallback sentence and log nothing: with a stream that throws, the
  console is still empty after each of them.
\<close>

theorem vision_and_chat_failures_not_logged:
  "call_error (Inr broken_stream) = Some (ServiceError (js ''503''))
   \<and> console (fst (handleExploreClick (Inr broken_stream) (env0, button0, Some section0)))
       = [(js ''Error:'', ServiceError (js ''503''))]
   \<and> console (fst (generateIcon (Inl (ServiceError (js ''503''))) env0 placeholder0))
       = [(js ''Icon generation failed:'', ServiceError (js ''503''))]
   \<and> (\<exists>w' v' vt'.
         generateGrandVision (Inr broken_stream) [js ''Fusion Dawn''] (env0, vision0) = (w', v')
         \<and> visionText v' = Some vt' \<and> textContent vt' = vision_fallback
         \<and> console w' = [])
   \<and> (\<exists>w' c'.
         chat_submit oracle_send_fails (env0, widget0) = (w', c')
         \<and> messages c' = messages widget0 @
              [user_bubble (js ''Hello''), assistant_bubble chat_apology]
         \<and> console w' = [])"
proof -
  have ne: "trim (input_value widget0) \<noteq> []"
    by (simp add: widget0_message js_Hello_nonempty)
  have a: "console (fst (handleExploreClick (Inr broken_stream) (env0, button0, Some section0)))
       = [(js ''Error:'', ServiceError (js ''503''))]"
    by (simp add: explore_expand_failure[OF section0_facts section0_request broken_stream_error]
        console_error_def send_def env0_def)
  have b: "console (fst (generateIcon (Inl (ServiceError (js ''503''))) env0 placeholder0))
       = [(js ''Icon generation failed:'', ServiceError (js ''503''))]"
    by (simp add: generateIcon_def icon_try_def Let_def console_error_def send_def env0_def)
  have c: "\<exists>w' v' vt'.
         generateGrandVision (Inr broken_stream) [js ''Fusion Dawn''] (env0, vision0) = (w', v')
         \<and> visionText v' = Some vt' \<and> textContent vt' = vision_fallback
         \<and> console w' = []"
    by (simp add: vision_result[OF vision0_facts] broken_stream_error send_def env0_def)
  have d: "\<exists>w' c'.
         chat_submit oracle_send_fails (env0, widget0) = (w', c')
         \<and> messages c' = messages widget0 @
              [user_bubble (js ''Hello''), assistant_bubble chat_apology]
         \<and> console w' = []"
    by (simp add: chat_submit_nonempty[OF ne] oracle_failures widget0_message env0_def)
  from a b c d broken_stream_error show ?thesis by blast
qed

end
